theory Spec2Isabelle
  imports Complex_Main
begin

section \<open>Numbers\<close>

text \<open>
  The library computes with JavaScript numbers. A finite number is idealised as an exact
  rational, so the arithmetic of the model has no rounding error and "equal within
  floating-point tolerance" reads as "equal". The non-finite values matter to the size
  formatter only and are the extra constructors of \<open>jsnum\<close> below.
\<close>

type_synonym number = rat

section \<open>ResizeHandle: the pointer and keyboard handlers\<close>

text \<open>
  \<open>ResizeHandle\<close> receives \<open>direction\<close> and the three optional callbacks
  \<open>onDragStart\<close>, \<open>onDrag\<close>, \<open>onDragEnd\<close> as props, and keeps three refs:
  \<open>isDraggingRef\<close>, \<open>startPosRef\<close> and \<open>cleanupRef\<close>. Everything a handler does to the
  outside is recorded as a list of \<open>call\<close>s, in program order: \<open>PreventDefault\<close> is
  \<open>e.preventDefault()\<close>, and \<open>OnDragStart\<close>, \<open>OnDrag d\<close>, \<open>OnDragEnd\<close> are the optional
  calls \<open>onDragStart?.()\<close>, \<open>onDrag?.(d)\<close>, \<open>onDragEnd?.()\<close>.

  \<open>cleanupRef\<close> holds a closure over the two body styles saved at pointer-down; it is
  modelled by the pair it captured. Each pointer-down also attaches one triple of document
  listeners (\<open>pointermove\<close>, \<open>pointerup\<close>, \<open>pointercancel\<close>), closed over the same
  pair; \<open>listeners\<close> lists the attached triples in registration order.
\<close>

datatype Direction = horizontal | vertical

record PointerEvent =
  clientX :: number
  clientY :: number

record KeyboardEvent =
  key :: string
  shiftKey :: bool

datatype call = PreventDefault | OnDragStart | OnDrag number | OnDragEnd

record handle =
  isDragging :: bool
  startPos :: number
  cleanupRef :: "(string \<times> string) option"
  listeners :: "(string \<times> string) list"
  bodyCursor :: string
  bodyUserSelect :: string

definition mounted :: "string \<Rightarrow> string \<Rightarrow> handle" where
  "mounted c u = \<lparr>isDragging = False, startPos = 0, cleanupRef = None, listeners = [],
     bodyCursor = c, bodyUserSelect = u\<rparr>"

definition pos :: "Direction \<Rightarrow> PointerEvent \<Rightarrow> number" where
  "pos direction e = (if direction = horizontal then clientX e else clientY e)"

text \<open>The closure \<open>cleanup\<close>: restore the saved body styles and clear the ref.\<close>

definition cleanup :: "string \<times> string \<Rightarrow> handle \<Rightarrow> handle" where
  "cleanup saved s = s\<lparr>bodyCursor := fst saved, bodyUserSelect := snd saved, cleanupRef := None\<rparr>"

text \<open>\<open>cleanupRef.current?.()\<close>\<close>

definition runCleanupRef :: "handle \<Rightarrow> handle" where
  "runCleanupRef s = (case cleanupRef s of None \<Rightarrow> s | Some saved \<Rightarrow> cleanup saved s)"

definition handlePointerDown :: "Direction \<Rightarrow> PointerEvent \<Rightarrow> handle \<Rightarrow> call list \<times> handle" where
  "handlePointerDown direction e s =
     (let s1 = runCleanupRef s;
          s2 = s1\<lparr>isDragging := True, startPos := pos direction e\<rparr>;
          cursor = (if direction = horizontal then ''col-resize'' else ''row-resize'');
          saved = (bodyCursor s2, bodyUserSelect s2);
          s3 = s2\<lparr>bodyCursor := cursor, bodyUserSelect := ''none''\<rparr>;
          s4 = s3\<lparr>cleanupRef := Some saved\<rparr>
      in ([PreventDefault, OnDragStart], s4\<lparr>listeners := listeners s4 @ [saved]\<rparr>))"

text \<open>One attached \<open>handlePointerMove\<close>; it reads the refs and changes nothing.\<close>

definition handlePointerMove :: "Direction \<Rightarrow> PointerEvent \<Rightarrow> handle \<Rightarrow> call list" where
  "handlePointerMove direction moveEvent s =
     (if \<not> isDragging s then []
      else let currentPos = pos direction moveEvent;
               cumulativeDelta = currentPos - startPos s
           in [OnDrag cumulativeDelta])"

text \<open>
  One attached \<open>handlePointerUp\<close>, closed over \<open>saved\<close>: when a drag is active it
  ends the drag, restores the styles, detaches its own triple (the flag \<open>False\<close>) and
  reports the end; otherwise it does nothing and stays attached (the flag \<open>True\<close>).
\<close>

definition handlePointerUp :: "string \<times> string \<Rightarrow> handle \<Rightarrow> call list \<times> bool \<times> handle" where
  "handlePointerUp saved s =
     (if isDragging s
      then ([OnDragEnd], False, cleanup saved (s\<lparr>isDragging := False\<rparr>))
      else ([], True, s))"

text \<open>
  Dispatching \<open>pointerup\<close> or \<open>pointercancel\<close> on the document runs the attached
  \<open>handlePointerUp\<close> closures in registration order; the second component collects the
  triples that stay attached.
\<close>

fun dispatchUp :: "(string \<times> string) list \<Rightarrow> (string \<times> string) list \<Rightarrow> handle
    \<Rightarrow> call list \<times> handle" where
  "dispatchUp [] kept s = ([], s\<lparr>listeners := kept\<rparr>)"
| "dispatchUp (l # ls) kept s =
     (case handlePointerUp l s of (cs, keep, s') \<Rightarrow>
        (case dispatchUp ls (if keep then kept @ [l] else kept) s' of (cs', s'') \<Rightarrow>
           (cs @ cs', s'')))"

definition handleKeyDown :: "Direction \<Rightarrow> KeyboardEvent \<Rightarrow> handle \<Rightarrow> call list \<times> handle" where
  "handleKeyDown direction e s =
     (let isHorizontal = (direction = horizontal);
          step = (if shiftKey e then 50 else 10);
          delta = (if (isHorizontal \<and> key e = ''ArrowLeft'') \<or> (\<not> isHorizontal \<and> key e = ''ArrowUp'')
                   then - step
                   else if (isHorizontal \<and> key e = ''ArrowRight'') \<or> (\<not> isHorizontal \<and> key e = ''ArrowDown'')
                   then step
                   else 0)
      in if delta \<noteq> 0
         then ([PreventDefault, OnDragStart, OnDrag delta, OnDragEnd], s)
         else ([], s))"

datatype event =
    PointerDown PointerEvent
  | PointerMove PointerEvent
  | PointerUp
  | PointerCancel
  | KeyDown KeyboardEvent

definition dispatch :: "Direction \<Rightarrow> event \<Rightarrow> handle \<Rightarrow> call list \<times> handle" where
  "dispatch direction ev s =
     (case ev of
        PointerDown e \<Rightarrow> handlePointerDown direction e s
      | PointerMove e \<Rightarrow> (concat (map (\<lambda>_. handlePointerMove direction e s) (listeners s)), s)
      | PointerUp \<Rightarrow> dispatchUp (listeners s) [] s
      | PointerCancel \<Rightarrow> dispatchUp (listeners s) [] s
      | KeyDown e \<Rightarrow> handleKeyDown direction e s)"

fun run :: "Direction \<Rightarrow> event list \<Rightarrow> handle \<Rightarrow> call list \<times> handle" where
  "run direction [] s = ([], s)"
| "run direction (ev # evs) s =
     (case dispatch direction ev s of (cs, s') \<Rightarrow>
        (case run direction evs s' of (cs', s'') \<Rightarrow> (cs @ cs', s'')))"



section \<open>Size specifications: \<open>parseSize\<close> and \<open>formatSize\<close>\<close>

text \<open>
  Modelled from the spec: the module that holds \<open>parseSize\<close>, \<open>formatSize\<close>,
  \<open>convertToPixels\<close>, \<open>calculateSizes\<close>, \<open>calculateSizesWithPixelConstraints\<close> and
  \<open>throttle\<close> is not among the sources; its test suite is. The definitions of this and of
  the next two sections follow sections 4.1 to 4.3, 4.5, 6 and 7 of the specification and
  agree with every expectation of that test suite.

  A size is a string or absent. The parser accepts \<open>auto\<close>, \<open>*\<close>, a number followed by
  \<open>px\<close> or \<open>%\<close>, and a bare number, which it takes as pixels; a number is an optional
  minus sign, digits, and optionally a point and digits. The scanner below reads a string
  from the left as a regular-expression matcher does. \<open>dev\<close> tells a development build
  from a production build: only the former emits diagnostics.
\<close>

datatype SizeUnit = Px | Percent | Auto

record ParsedSize =
  val :: number
  unit :: SizeUnit
  original :: string

datatype error = InvalidSizeFormat string

datatype diagnostic =
    MissingUnit string string
  | SumMismatch number number
  | OverSum number number number

definition isDigit :: "char \<Rightarrow> bool" where
  "isDigit c \<longleftrightarrow> c \<in> set ''0123456789''"

definition digitVal :: "char \<Rightarrow> nat" where
  "digitVal c = of_char c - 48"

definition natOfDigits :: "string \<Rightarrow> nat" where
  "natOfDigits ds = foldl (\<lambda>n c. 10 * n + digitVal c) 0 ds"

definition scanUnsigned :: "string \<Rightarrow> (number \<times> string) option" where
  "scanUnsigned s =
     (let ip = takeWhile isDigit s;
          r1 = dropWhile isDigit s
      in if ip = [] then None
         else (case r1 of
                 [] \<Rightarrow> Some (of_nat (natOfDigits ip), [])
               | c # r2 \<Rightarrow>
                   (let fp = takeWhile isDigit r2
                    in if c = CHR ''.'' \<and> fp \<noteq> []
                       then Some (of_nat (natOfDigits ip) + of_nat (natOfDigits fp) / 10 ^ length fp,
                                  dropWhile isDigit r2)
                       else Some (of_nat (natOfDigits ip), r1))))"

definition scanNumber :: "string \<Rightarrow> (number \<times> string) option" where
  "scanNumber s =
     (case s of
        [] \<Rightarrow> None
      | c # r \<Rightarrow>
          if c = CHR ''-''
          then (case scanUnsigned r of None \<Rightarrow> None | Some (v, rest) \<Rightarrow> Some (- v, rest))
          else scanUnsigned s)"

definition parseSize :: "bool \<Rightarrow> string option \<Rightarrow> error + ParsedSize \<times> diagnostic list" where
  "parseSize dev sz =
     (case sz of
        None \<Rightarrow> Inr (\<lparr>val = 0, unit = Auto, original = ''auto''\<rparr>, [])
      | Some s \<Rightarrow>
          if s = ''auto'' \<or> s = ''*'' then Inr (\<lparr>val = 0, unit = Auto, original = s\<rparr>, [])
          else (case scanNumber s of
                  None \<Rightarrow> Inl (InvalidSizeFormat s)
                | Some (v, rest) \<Rightarrow>
                    if rest = ''px'' then Inr (\<lparr>val = v, unit = Px, original = s\<rparr>, [])
                    else if rest = ''%'' then Inr (\<lparr>val = v, unit = Percent, original = s\<rparr>, [])
                    else if rest = [] then
                      Inr (\<lparr>val = v, unit = Px, original = s @ ''px''\<rparr>,
                           if dev then [MissingUnit s (s @ ''px'')] else [])
                    else Inl (InvalidSizeFormat s)))"

text \<open>
  The grammar of section 4.1, stated on its own: the strings the specification calls
  \<open><number>px\<close>, \<open><number>%\<close>, \<open>auto\<close>, \<open>*\<close> and a bare number.
\<close>

definition digits :: "string \<Rightarrow> bool" where
  "digits ds \<longleftrightarrow> ds \<noteq> [] \<and> list_all isDigit ds"

definition unsignedNumber :: "string \<Rightarrow> bool" where
  "unsignedNumber s \<longleftrightarrow> digits s \<or> (\<exists>ip fp. s = ip @ CHR ''.'' # fp \<and> digits ip \<and> digits fp)"

definition numberStr :: "string \<Rightarrow> bool" where
  "numberStr s \<longleftrightarrow> unsignedNumber s \<or> (\<exists>u. s = CHR ''-'' # u \<and> unsignedNumber u)"

definition sizeGrammar :: "string \<Rightarrow> bool" where
  "sizeGrammar s \<longleftrightarrow>
     (\<exists>n. numberStr n \<and> s = n @ ''px'') \<or> (\<exists>n. numberStr n \<and> s = n @ ''%'')
     \<or> s = ''auto'' \<or> s = ''*'' \<or> numberStr s"

text \<open>What may follow the number of an accepted size: nothing, \<open>px\<close> or \<open>%\<close>.\<close>

definition stops :: "string \<Rightarrow> bool" where
  "stops r \<longleftrightarrow> r = [] \<or> r = ''px'' \<or> r = ''%''"

text \<open>
  The formatter receives a JavaScript number, which may be non-finite. A finite value is
  written in decimal: sign, integer part and, when the value is not an integer, a point
  and the fraction digits (at most twenty of them).
\<close>

datatype jsnum = Finite number | NaN | PosInfinity | NegInfinity

definition digitChar :: "nat \<Rightarrow> char" where
  "digitChar d = ''0123456789'' ! d"

fun showNat :: "nat \<Rightarrow> string" where
  "showNat n = (if n < 10 then [digitChar n] else showNat (n div 10) @ [digitChar (n mod 10)])"

fun fracDigits :: "nat \<Rightarrow> number \<Rightarrow> string" where
  "fracDigits 0 f = []"
| "fracDigits (Suc k) f =
     (if f = 0 then []
      else let d = nat \<lfloor>f * 10\<rfloor> in digitChar d # fracDigits k (f * 10 - of_nat d))"

declare showNat.simps [simp del]

definition showNumber :: "number \<Rightarrow> string" where
  "showNumber r =
     (let a = \<bar>r\<bar>;
          ip = nat \<lfloor>a\<rfloor>;
          fr = a - of_nat ip
      in (if r < 0 then ''-'' else []) @ showNat ip
         @ (if fr = 0 then [] else CHR ''.'' # fracDigits 20 fr))"

definition formatSize :: "jsnum \<Rightarrow> SizeUnit \<Rightarrow> string" where
  "formatSize v u =
     (case v of
        Finite r \<Rightarrow>
          (case u of
             Auto \<Rightarrow> ''auto''
           | Px \<Rightarrow> showNumber r @ ''px''
           | Percent \<Rightarrow> showNumber r @ ''%'')
      | _ \<Rightarrow> ''auto'')"

text \<open>\<open>format(parse(s))\<close>: the parsed value and unit handed back to the formatter.\<close>

definition roundTrip :: "bool \<Rightarrow> string \<Rightarrow> error + string" where
  "roundTrip dev s =
     (case parseSize dev (Some s) of
        Inl e \<Rightarrow> Inl e
      | Inr (p, w) \<Rightarrow> Inr (formatSize (Finite (val p)) (unit p)))"

section \<open>Constraint resolver and layout solver\<close>

text \<open>
  Modelled from the spec: \<open>convertToPixels\<close> and the constraint resolver of section 4.2
  (the source module is missing). A percentage is \<open>percent \<times> containerSizePx / 100\<close>; an
  absent bound resolves to absent. The panel props are normalised so that an undeclared
  \<open>minSize\<close> or \<open>maxSize\<close> reads \<open>auto\<close>; a bound that parses to the unit \<open>auto\<close> is
  therefore an undeclared bound and resolves to absent as well.
\<close>

record PixelConstraint =
  minPx :: "number option"
  maxPx :: "number option"

record SizeConstraint =
  minSize :: "string option"
  maxSize :: "string option"

definition convertToPixels :: "ParsedSize \<Rightarrow> number \<Rightarrow> number" where
  "convertToPixels p containerSize =
     (case unit p of
        Px \<Rightarrow> val p
      | Percent \<Rightarrow> val p * containerSize / 100
      | Auto \<Rightarrow> 0)"

definition resolveBound :: "bool \<Rightarrow> string option \<Rightarrow> number \<Rightarrow> error + number option \<times> diagnostic list" where
  "resolveBound dev b containerSize =
     (case b of
        None \<Rightarrow> Inr (None, [])
      | Some s \<Rightarrow>
          (case parseSize dev (Some s) of
             Inl e \<Rightarrow> Inl e
           | Inr (p, w) \<Rightarrow>
               Inr (if unit p = Auto then None else Some (convertToPixels p containerSize), w)))"

definition resolveConstraint :: "bool \<Rightarrow> SizeConstraint \<Rightarrow> number \<Rightarrow> error + PixelConstraint \<times> diagnostic list" where
  "resolveConstraint dev c containerSize =
     (case resolveBound dev (minSize c) containerSize of
        Inl e \<Rightarrow> Inl e
      | Inr (lo, w1) \<Rightarrow>
          (case resolveBound dev (maxSize c) containerSize of
             Inl e \<Rightarrow> Inl e
           | Inr (hi, w2) \<Rightarrow> Inr (\<lparr>minPx = lo, maxPx = hi\<rparr>, w1 @ w2)))"

fun resolveAll :: "bool \<Rightarrow> SizeConstraint list \<Rightarrow> number \<Rightarrow> error + PixelConstraint list \<times> diagnostic list" where
  "resolveAll dev [] containerSize = Inr ([], [])"
| "resolveAll dev (c # cs) containerSize =
     (case resolveConstraint dev c containerSize of
        Inl e \<Rightarrow> Inl e
      | Inr (pc, w) \<Rightarrow>
          (case resolveAll dev cs containerSize of
             Inl e \<Rightarrow> Inl e
           | Inr (pcs, ws) \<Rightarrow> Inr (pc # pcs, w @ ws)))"

text \<open>
  Modelled from the spec: the clamp of section 4.3, step 2: the minimum first, then the
  maximum, so that the maximum wins when the two cross.
\<close>

definition clampSize :: "number \<Rightarrow> PixelConstraint \<Rightarrow> number" where
  "clampSize v c =
     (let a = (case minPx c of None \<Rightarrow> v | Some m \<Rightarrow> max v m)
      in case maxPx c of None \<Rightarrow> a | Some M \<Rightarrow> min a M)"

text \<open>
  Modelled from the spec: the solver of section 4.3. Every panel is a \<open>slot\<close>: its pixel
  constraint and its size once that is settled. A fixed panel (pixels or percent) is
  settled from the start at its clamped size (steps 1 and 2); a flexible panel starts
  unsettled. A panel that has no entry in the constraint list is unconstrained.

  One pass (step 5) divides what the settled panels leave of the container equally among
  the unsettled ones (step 3: the container size minus the settled sizes, recomputed from
  the original sizes in every pass) and clamps each share. The panels whose clamp changed
  their share are settled at the clamped size and the pass is repeated for the others, in
  the same declaration order; when no clamp is triggered the unsettled panels keep the
  share.
  The last unsettled panel is offered all the residual space and is clamped like every
  other panel (the test suite expects a lone flexible panel with \<open>minSize\<close> 900 in what
  is left of 1000 beside 200 to be at least 900, and one with \<open>maxSize\<close> 600 to be at
  most 600).
\<close>

type_synonym slot = "PixelConstraint \<times> number option"

definition unconstrained :: PixelConstraint where
  "unconstrained = \<lparr>minPx = None, maxPx = None\<rparr>"

definition constraintAt :: "PixelConstraint list \<Rightarrow> nat \<Rightarrow> PixelConstraint" where
  "constraintAt cs i = (if i < length cs then cs ! i else unconstrained)"

fun mkSlots :: "ParsedSize list \<Rightarrow> number \<Rightarrow> PixelConstraint list \<Rightarrow> slot list" where
  "mkSlots [] containerSize cs = []"
| "mkSlots (p # ps) containerSize cs =
     (let c = (case cs of [] \<Rightarrow> unconstrained | c # _ \<Rightarrow> c)
      in (c, if unit p = Auto then None
             else Some (clampSize (convertToPixels p containerSize) c))
         # mkSlots ps containerSize (tl cs))"

definition freeCount :: "slot list \<Rightarrow> nat" where
  "freeCount st = length (filter (\<lambda>(c, v). v = None) st)"

definition frozenSum :: "slot list \<Rightarrow> number" where
  "frozenSum st = sum_list (map (\<lambda>(c, v). case v of None \<Rightarrow> 0 | Some x \<Rightarrow> x) st)"

definition hitsClamp :: "number \<Rightarrow> slot \<Rightarrow> bool" where
  "hitsClamp share = (\<lambda>(c, v). v = None \<and> clampSize share c \<noteq> share)"

definition freeze :: "number \<Rightarrow> slot \<Rightarrow> slot" where
  "freeze share = (\<lambda>(c, v). if hitsClamp share (c, v) then (c, Some (clampSize share c)) else (c, v))"

definition finish :: "number \<Rightarrow> slot \<Rightarrow> number" where
  "finish share = (\<lambda>(c, v). case v of None \<Rightarrow> share | Some x \<Rightarrow> x)"

lemma freeCount_freeze_le: "freeCount (map (freeze share) st) \<le> freeCount st"
  by (induction st) (auto simp: freeCount_def freeze_def hitsClamp_def)

lemma freeCount_freeze_less:
  "list_ex (hitsClamp share) st \<Longrightarrow> freeCount (map (freeze share) st) < freeCount st"
proof (induction st)
  case Nil
  then show ?case by simp
next
  case (Cons a st)
  show ?case
  proof (cases "hitsClamp share a")
    case True
    then have "freeCount (map (freeze share) (a # st)) = freeCount (map (freeze share) st)"
      by (cases a) (simp add: freeCount_def freeze_def)
    moreover have "freeCount (a # st) = Suc (freeCount st)"
      using True by (cases a) (simp add: freeCount_def hitsClamp_def)
    ultimately show ?thesis using freeCount_freeze_le [of share st] by simp
  next
    case False
    then have "list_ex (hitsClamp share) st" using Cons.prems by simp
    from Cons.IH [OF this] show ?thesis
      using False by (cases a) (auto simp: freeCount_def freeze_def)
  qed
qed

function settle :: "number \<Rightarrow> slot list \<Rightarrow> number list" where
  "settle containerSize st =
     (if freeCount st = 0 then map (finish 0) st
      else let share = (containerSize - frozenSum st) / of_nat (freeCount st)
           in if list_ex (hitsClamp share) st
              then settle containerSize (map (freeze share) st)
              else map (finish share) st)"
  by pat_completeness auto
termination
  by (relation "measure (\<lambda>(containerSize, st). freeCount st)") (auto simp: freeCount_freeze_less)

declare settle.simps [simp del]

text \<open>
  Modelled from the spec: the development diagnostics of sections 4.3 (step 4), 6 and 7,
  with the two cases the test suite tells apart. Without a flexible panel the fixed sizes
  are reported when they do not sum to the container (\<open>SumMismatch\<close>: sum, container); with
  a flexible panel they are reported when they leave negative space (\<open>OverSum\<close>: fixed sum,
  container, space left). A production build reports nothing.
\<close>

definition sizingDiagnostics :: "bool \<Rightarrow> slot list \<Rightarrow> number \<Rightarrow> diagnostic list" where
  "sizingDiagnostics dev st containerSize =
     (if \<not> dev then []
      else let fixedSum = frozenSum st;
               remaining = containerSize - fixedSum
           in if freeCount st = 0
              then (if fixedSum \<noteq> containerSize then [SumMismatch fixedSum containerSize] else [])
              else (if remaining < 0 then [OverSum fixedSum containerSize remaining] else []))"

fun parseAll :: "bool \<Rightarrow> string option list \<Rightarrow> error + ParsedSize list \<times> diagnostic list" where
  "parseAll dev [] = Inr ([], [])"
| "parseAll dev (s # ss) =
     (case parseSize dev s of
        Inl e \<Rightarrow> Inl e
      | Inr (p, w) \<Rightarrow>
          (case parseAll dev ss of
             Inl e \<Rightarrow> Inl e
           | Inr (ps, ws) \<Rightarrow> Inr (p # ps, w @ ws)))"

text \<open>
  Modelled from the spec: the two entry points. \<open>calculateSizesWithPixelConstraints\<close>
  takes resolved pixel constraints (section 4.3, item 6); \<open>calculateSizes\<close> resolves the
  declared constraints first and then does the same.
\<close>

definition calculateSizesWithPixelConstraints ::
    "bool \<Rightarrow> string option list \<Rightarrow> number \<Rightarrow> PixelConstraint list \<Rightarrow> error + number list \<times> diagnostic list" where
  "calculateSizesWithPixelConstraints dev sizes containerSize pixelConstraints =
     (case parseAll dev sizes of
        Inl e \<Rightarrow> Inl e
      | Inr (parsed, ws) \<Rightarrow>
          (let st = mkSlots parsed containerSize pixelConstraints
           in Inr (settle containerSize st, ws @ sizingDiagnostics dev st containerSize)))"

definition calculateSizes ::
    "bool \<Rightarrow> string option list \<Rightarrow> number \<Rightarrow> SizeConstraint list \<Rightarrow> error + number list \<times> diagnostic list" where
  "calculateSizes dev sizes containerSize constraints =
     (case resolveAll dev constraints containerSize of
        Inl e \<Rightarrow> Inl e
      | Inr (pixelConstraints, ws) \<Rightarrow>
          (case calculateSizesWithPixelConstraints dev sizes containerSize pixelConstraints of
             Inl e \<Rightarrow> Inl e
           | Inr (result, ds) \<Rightarrow> Inr (result, ws @ ds)))"

text \<open>Vocabulary for the statements about the solver.\<close>

definition isAutoSize :: "string option \<Rightarrow> bool" where
  "isAutoSize sz \<longleftrightarrow> sz = None \<or> sz = Some ''auto'' \<or> sz = Some ''*''"

definition atBound :: "PixelConstraint \<Rightarrow> number \<Rightarrow> bool" where
  "atBound c x \<longleftrightarrow> minPx c = Some x \<or> maxPx c = Some x"

definition unbounded :: "PixelConstraint \<Rightarrow> bool" where
  "unbounded c \<longleftrightarrow> minPx c = None \<and> maxPx c = None"

text \<open>
  The total of the fixed panels' clamped sizes and the number of flexible panels of a
  call, read off the parsed sizes.
\<close>

definition fixedTotal :: "bool \<Rightarrow> string option list \<Rightarrow> number \<Rightarrow> PixelConstraint list \<Rightarrow> number" where
  "fixedTotal dev sizes containerSize pixelConstraints =
     (case parseAll dev sizes of
        Inl e \<Rightarrow> 0
      | Inr (parsed, ws) \<Rightarrow> frozenSum (mkSlots parsed containerSize pixelConstraints))"

definition autoCount :: "string option list \<Rightarrow> nat" where
  "autoCount sizes = length (filter isAutoSize sizes)"

text \<open>
  A call of either entry point that returns: \<open>pcs\<close> are the pixel constraints the solver
  works with, given directly or resolved from the declared constraints.
\<close>

definition solverCall ::
    "bool \<Rightarrow> string option list \<Rightarrow> number \<Rightarrow> PixelConstraint list \<Rightarrow> number list \<Rightarrow> diagnostic list \<Rightarrow> bool" where
  "solverCall dev sizes containerSize pcs result diags \<longleftrightarrow>
     calculateSizesWithPixelConstraints dev sizes containerSize pcs = Inr (result, diags)
     \<or> (\<exists>constraints ws. resolveAll dev constraints containerSize = Inr (pcs, ws)
          \<and> calculateSizes dev sizes containerSize constraints = Inr (result, diags))"

section \<open>Rate limiter: \<open>throttle\<close>\<close>

text \<open>
  Modelled from the spec: \<open>throttle(fn, wait)\<close> of section 4.5 (the source module is
  missing). Time is the clock reading in milliseconds that comes with each event. The
  throttled function remembers when \<open>fn\<close> last ran and the arguments of the most recent
  call that was held back; a held-back call arms a timer for the end of the window,
  \<open>wait\<close> after the last run. \<open>Call now args\<close> is a call of the throttled function and
  \<open>TimerFires now\<close> is the timer callback; each step returns the argument lists \<open>fn\<close> was
  invoked with during the step.
\<close>

record 'a throttled =
  lastRun :: "nat option"
  pending :: "'a option"

datatype 'a tick = Call nat 'a | TimerFires nat

definition fresh :: "'a throttled" where
  "fresh = \<lparr>lastRun = None, pending = None\<rparr>"

definition windowOpen :: "nat \<Rightarrow> nat \<Rightarrow> 'a throttled \<Rightarrow> bool" where
  "windowOpen wait now s = (case lastRun s of None \<Rightarrow> False | Some t \<Rightarrow> now < t + wait)"

definition throttleStep :: "nat \<Rightarrow> 'a tick \<Rightarrow> 'a throttled \<Rightarrow> 'a list \<times> 'a throttled" where
  "throttleStep wait ev s =
     (case ev of
        Call now args \<Rightarrow>
          if windowOpen wait now s
          then ([], s\<lparr>pending := Some args\<rparr>)
          else ([args], \<lparr>lastRun = Some now, pending = None\<rparr>)
      | TimerFires now \<Rightarrow>
          (case pending s of
             None \<Rightarrow> ([], s)
           | Some args \<Rightarrow>
               if windowOpen wait now s then ([], s)
               else ([args], \<lparr>lastRun = Some now, pending = None\<rparr>)))"

fun throttleRun :: "nat \<Rightarrow> 'a tick list \<Rightarrow> 'a throttled \<Rightarrow> 'a list \<times> 'a throttled" where
  "throttleRun wait [] s = ([], s)"
| "throttleRun wait (ev # evs) s =
     (case throttleStep wait ev s of (out, s') \<Rightarrow>
        (case throttleRun wait evs s' of (out', s'') \<Rightarrow> (out @ out', s'')))"

section \<open>Collapse and expand while dragging\<close>

text \<open>
  Modelled from the spec: the collapse snapping of section 4.4 (the panel group that owns
  it is not among the sources). A panel has a resolved \<open>minSize\<close>, possibly a collapsed
  size, and its collapse state. A drag event proposes a candidate size, the size at drag
  start plus or minus the cumulative delta. The threshold is the midpoint between 0 and
  the resolved \<open>minSize\<close>. The step returns the size handed to the solver, the
  notifications raised, and the new panel state.
\<close>

record PanelState =
  minSizePx :: number
  collapsedSizePx :: "number option"
  collapsed :: bool

datatype notification = CollapseChanged bool

definition collapseThreshold :: "PanelState \<Rightarrow> number" where
  "collapseThreshold p = (0 + minSizePx p) / 2"

definition dragPanel :: "number \<Rightarrow> PanelState \<Rightarrow> number \<times> notification list \<times> PanelState" where
  "dragPanel candidate p =
     (case collapsedSizePx p of
        None \<Rightarrow> (candidate, [], p)
      | Some collapsedSize \<Rightarrow>
          if \<not> collapsed p \<and> candidate \<le> collapseThreshold p
          then (collapsedSize, [CollapseChanged True], p\<lparr>collapsed := True\<rparr>)
          else if collapsed p \<and> collapseThreshold p < candidate
          then (candidate, [CollapseChanged False], p\<lparr>collapsed := False\<rparr>)
          else (if collapsed p then collapsedSize else candidate, [], p))"

text \<open>
  A drag session on one panel: every event carries the cumulative delta, and the candidate
  is computed from the size captured at drag start.
\<close>

fun dragSession :: "number \<Rightarrow> number list \<Rightarrow> PanelState \<Rightarrow> number list \<times> notification list \<times> PanelState" where
  "dragSession startSize [] p = ([], [], p)"
| "dragSession startSize (delta # deltas) p =
     (case dragPanel (startSize + delta) p of (sz, notes, p') \<Rightarrow>
        (case dragSession startSize deltas p' of (szs, notes', p'') \<Rightarrow>
           (sz # szs, notes @ notes', p'')))"

section \<open>Theorems: ResizeHandle\<close>








lemma run_keys:
  "run direction (map KeyDown es) s = (concat (map (\<lambda>e. fst (handleKeyDown direction e s)) es), s)"
  by (induction es) (simp_all add: dispatch_def handleKeyDown_def Let_def)



text \<open>
  C9. An arrow key along the handle's axis performs one complete drag session in the one
  handler call: \<open>preventDefault\<close>, \<open>onDragStart\<close>, a single \<open>onDrag\<close> of 10 pixels (50
  with Shift), negative for ArrowLeft/ArrowUp and positive for ArrowRight/ArrowDown, then
  \<open>onDragEnd\<close>. The handler leaves the refs as they were, so after any run of key presses
  on a freshly mounted handle no drag is active.
\<close>

theorem keydown_one_step_session:
  "((direction = horizontal \<and> key e = ''ArrowLeft'') \<or> (direction = vertical \<and> key e = ''ArrowUp'')
      \<longrightarrow> handleKeyDown direction e s =
            ([PreventDefault, OnDragStart, OnDrag (- (if shiftKey e then 50 else 10)), OnDragEnd], s))
   \<and> ((direction = horizontal \<and> key e = ''ArrowRight'') \<or> (direction = vertical \<and> key e = ''ArrowDown'')
      \<longrightarrow> handleKeyDown direction e s =
            ([PreventDefault, OnDragStart, OnDrag (if shiftKey e then 50 else 10), OnDragEnd], s))
   \<and> snd (run direction (map KeyDown es) s) = s
   \<and> \<not> isDragging (snd (run direction (map KeyDown es) (mounted c u)))"
  by (cases direction) (auto simp: handleKeyDown_def Let_def run_keys mounted_def)

theorem keydown_one_step_session_witness:
  "handleKeyDown horizontal \<lparr>key = ''ArrowLeft'', shiftKey = True\<rparr> (mounted ''default'' ''auto'') =
     ([PreventDefault, OnDragStart, OnDrag (- 50), OnDragEnd], mounted ''default'' ''auto'')
   \<and> handleKeyDown vertical \<lparr>key = ''ArrowDown'', shiftKey = False\<rparr> (mounted ''default'' ''auto'') =
     ([PreventDefault, OnDragStart, OnDrag 10, OnDragEnd], mounted ''default'' ''auto'')"
  using keydown_one_step_session [of horizontal "\<lparr>key = ''ArrowLeft'', shiftKey = True\<rparr>"
      "mounted ''default'' ''auto''" "[]" "''default''" "''auto''"]
    keydown_one_step_session [of vertical "\<lparr>key = ''ArrowDown'', shiftKey = False\<rparr>"
      "mounted ''default'' ''auto''" "[]" "''default''" "''auto''"]
  by simp

text \<open>
  C10. A key that is not an arrow along the handle's axis (ArrowUp or ArrowDown on a
  horizontal handle, ArrowLeft or ArrowRight on a vertical one, any other key) makes the
  handler do nothing: no \<open>preventDefault\<close>, none of the three callbacks, refs unchanged.
\<close>

theorem keydown_other_key_ignored:
  "\<not> ((direction = horizontal \<and> (key e = ''ArrowLeft'' \<or> key e = ''ArrowRight''))
      \<or> (direction = vertical \<and> (key e = ''ArrowUp'' \<or> key e = ''ArrowDown'')))
   \<Longrightarrow> handleKeyDown direction e s = ([], s)"
  by (cases direction) (auto simp: handleKeyDown_def Let_def)

theorem keydown_other_key_ignored_witness:
  "\<not> ((horizontal = horizontal \<and> (key \<lparr>key = ''ArrowUp'', shiftKey = True\<rparr> = ''ArrowLeft''
          \<or> key \<lparr>key = ''ArrowUp'', shiftKey = True\<rparr> = ''ArrowRight''))
      \<or> (horizontal = vertical \<and> (key \<lparr>key = ''ArrowUp'', shiftKey = True\<rparr> = ''ArrowUp''
          \<or> key \<lparr>key = ''ArrowUp'', shiftKey = True\<rparr> = ''ArrowDown'')))
   \<and> handleKeyDown horizontal \<lparr>key = ''ArrowUp'', shiftKey = True\<rparr> (mounted ''default'' ''auto'') =
       ([], mounted ''default'' ''auto'')"
  using keydown_other_key_ignored [of horizontal "\<lparr>key = ''ArrowUp'', shiftKey = True\<rparr>"
      "mounted ''default'' ''auto''"]
  by simp

section \<open>Theorems: size specifications\<close>

lemma stops_hd: "stops r \<Longrightarrow> r = [] \<or> (\<not> isDigit (hd r) \<and> hd r \<noteq> CHR ''.'')"
  by (auto simp: stops_def isDigit_def)

lemma takeWhile_stop:
  "r = [] \<or> \<not> isDigit (hd r) \<Longrightarrow> takeWhile isDigit r = [] \<and> dropWhile isDigit r = r"
  by (cases r) auto

lemma takeWhile_digits:
  "list_all isDigit ds \<Longrightarrow> r = [] \<or> \<not> isDigit (hd r) \<Longrightarrow>
   takeWhile isDigit (ds @ r) = ds \<and> dropWhile isDigit (ds @ r) = r"
  using takeWhile_stop [of r] by (induction ds) auto

lemma split_digits:
  "list_all isDigit (takeWhile isDigit s) \<and> s = takeWhile isDigit s @ dropWhile isDigit s"
  by (induction s) auto

lemma scanUnsigned_eq:
  "takeWhile isDigit s = ip \<Longrightarrow> dropWhile isDigit s = r1 \<Longrightarrow>
   scanUnsigned s =
     (if ip = [] then None
      else (case r1 of
              [] \<Rightarrow> Some (of_nat (natOfDigits ip), [])
            | c # r2 \<Rightarrow>
                (if c = CHR ''.'' \<and> takeWhile isDigit r2 \<noteq> []
                 then Some (of_nat (natOfDigits ip)
                              + of_nat (natOfDigits (takeWhile isDigit r2)) / 10 ^ length (takeWhile isDigit r2),
                            dropWhile isDigit r2)
                 else Some (of_nat (natOfDigits ip), r1))))"
  unfolding scanUnsigned_def Let_def by (auto split: list.splits)

text \<open>The scanner accepts every number of the grammar and stops where the number ends.\<close>

lemma scanUnsigned_complete:
  assumes "unsignedNumber n" "stops r"
  shows "\<exists>v. scanUnsigned (n @ r) = Some (v, r)"
proof -
  from assms(1) consider (int) "digits n"
    | (frac) ip fp where "n = ip @ CHR ''.'' # fp" "digits ip" "digits fp"
    by (auto simp: unsignedNumber_def)
  then show ?thesis
  proof cases
    case int
    then have "takeWhile isDigit (n @ r) = n" "dropWhile isDigit (n @ r) = r"
      using takeWhile_digits [of n r] stops_hd [OF assms(2)] by (auto simp: digits_def)
    from scanUnsigned_eq [OF this] show ?thesis
      using int assms(2) by (auto simp: digits_def stops_def)
  next
    case frac
    have dot: "\<not> isDigit CHR ''.''" by (simp add: isDigit_def)
    have 1: "takeWhile isDigit (n @ r) = ip" "dropWhile isDigit (n @ r) = CHR ''.'' # fp @ r"
      using takeWhile_digits [of ip "CHR ''.'' # fp @ r"] frac dot by (auto simp: digits_def)
    have 2: "takeWhile isDigit (fp @ r) = fp" "dropWhile isDigit (fp @ r) = r"
      using takeWhile_digits [of fp r] frac stops_hd [OF assms(2)] by (auto simp: digits_def)
    from scanUnsigned_eq [OF 1] show ?thesis
      using 2 frac by (simp add: digits_def)
  qed
qed

lemma scanUnsigned_cases:
  assumes "scanUnsigned s = Some (v, r)" "dropWhile isDigit s = r1"
  shows "takeWhile isDigit s \<noteq> [] \<and>
   (r1 = r \<or> (\<exists>r2. r1 = CHR ''.'' # r2 \<and> takeWhile isDigit r2 \<noteq> [] \<and> dropWhile isDigit r2 = r))"
  using assms(1) scanUnsigned_eq [OF refl assms(2)]
  by (cases r1) (auto split: if_splits)

text \<open>What the scanner consumed is a number of the grammar.\<close>

lemma scanUnsigned_sound:
  assumes "scanUnsigned s = Some (v, r)"
  shows "\<exists>n. unsignedNumber n \<and> s = n @ r"
proof -
  let ?ip = "takeWhile isDigit s" and ?r1 = "dropWhile isDigit s"
  have ip: "?ip \<noteq> []" using scanUnsigned_cases [OF assms refl] by blast
  have dip: "digits ?ip" using ip split_digits [of s] by (simp add: digits_def)
  have s: "s = ?ip @ ?r1" by simp
  from scanUnsigned_cases [OF assms refl]
  consider (int) "r = ?r1"
    | (frac) r2 where "?r1 = CHR ''.'' # r2" "takeWhile isDigit r2 \<noteq> []" "r = dropWhile isDigit r2"
    by metis
  then show ?thesis
  proof cases
    case int
    have "unsignedNumber ?ip" using dip by (simp add: unsignedNumber_def)
    then show ?thesis using s int by metis
  next
    case frac
    let ?fp = "takeWhile isDigit r2"
    have "digits ?fp" using frac(2) split_digits [of r2] by (simp add: digits_def)
    then have "unsignedNumber (?ip @ CHR ''.'' # ?fp)"
      using dip by (auto simp: unsignedNumber_def)
    moreover have "s = (?ip @ CHR ''.'' # ?fp) @ r"
    proof -
      have "?r1 = CHR ''.'' # ?fp @ r" using frac by simp
      then have "s = ?ip @ CHR ''.'' # ?fp @ r" using s by metis
      then show ?thesis by simp
    qed
    ultimately show ?thesis by blast
  qed
qed

lemma unsigned_no_minus: "unsignedNumber n \<Longrightarrow> n \<noteq> [] \<and> hd n \<noteq> CHR ''-''"
  by (auto simp: unsignedNumber_def digits_def isDigit_def neq_Nil_conv)

lemma scanNumber_complete:
  assumes "numberStr n" "stops r"
  shows "\<exists>v. scanNumber (n @ r) = Some (v, r)"
proof -
  from assms(1) consider (pos) "unsignedNumber n" | (neg) u where "n = CHR ''-'' # u" "unsignedNumber u"
    by (auto simp: numberStr_def)
  then show ?thesis
  proof cases
    case pos
    then obtain v where "scanUnsigned (n @ r) = Some (v, r)"
      using scanUnsigned_complete assms(2) by blast
    then show ?thesis
      using unsigned_no_minus [OF pos] by (cases n) (auto simp: scanNumber_def)
  next
    case neg
    then obtain v where "scanUnsigned (u @ r) = Some (v, r)"
      using scanUnsigned_complete assms(2) by blast
    then show ?thesis using neg by (simp add: scanNumber_def)
  qed
qed

lemma scanNumber_sound:
  assumes "scanNumber s = Some (v, r)"
  shows "\<exists>n. numberStr n \<and> s = n @ r"
proof (cases s)
  case Nil
  then show ?thesis using assms by (simp add: scanNumber_def)
next
  case (Cons c t)
  show ?thesis
  proof (cases "c = CHR ''-''")
    case True
    then obtain w where "scanUnsigned t = Some (w, r)"
      using assms Cons by (auto simp: scanNumber_def split: option.splits)
    then obtain u where "unsignedNumber u" "t = u @ r"
      using scanUnsigned_sound by blast
    then show ?thesis using Cons True by (auto simp: numberStr_def)
  next
    case False
    then have "scanUnsigned s = Some (v, r)"
      using assms Cons by (simp add: scanNumber_def)
    then obtain u where "unsignedNumber u" "s = u @ r"
      using scanUnsigned_sound by blast
    then show ?thesis by (auto simp: numberStr_def)
  qed
qed

lemma parseSize_fails_iff:
  "isl (parseSize dev (Some s)) \<longleftrightarrow> \<not> sizeGrammar s"
proof
  assume f: "isl (parseSize dev (Some s))"
  show "\<not> sizeGrammar s"
  proof
    assume "sizeGrammar s"
    then consider (u) n r where "numberStr n" "s = n @ r" "stops r" | (a) "s = ''auto'' \<or> s = ''*''"
      unfolding sizeGrammar_def stops_def by (metis append_Nil2)
    then show False
    proof cases
      case u
      then obtain v where "scanNumber s = Some (v, r)" using scanNumber_complete by blast
      then show False using f u(3) by (auto simp: parseSize_def stops_def split: if_splits)
    next
      case a
      then show False using f by (auto simp: parseSize_def)
    qed
  qed
next
  assume g: "\<not> sizeGrammar s"
  show "isl (parseSize dev (Some s))"
  proof (rule ccontr)
    assume n: "\<not> isl (parseSize dev (Some s))"
    have na: "s \<noteq> ''auto''" "s \<noteq> ''*''" using g by (auto simp: sizeGrammar_def)
    then obtain v r where sc: "scanNumber s = Some (v, r)" and r: "stops r"
      using n by (auto simp: parseSize_def stops_def split: option.splits if_splits)
    then obtain m where "numberStr m" "s = m @ r" using scanNumber_sound by blast
    then show False using g r by (auto simp: sizeGrammar_def stops_def)
  qed
qed

lemma parseSize_error: "isl (parseSize dev (Some s)) \<Longrightarrow> parseSize dev (Some s) = Inl (InvalidSizeFormat s)"
  by (auto simp: parseSize_def split: option.splits if_splits)

lemma number_first: "numberStr s \<Longrightarrow> s \<noteq> [] \<and> (isDigit (hd s) \<or> hd s = CHR ''-'')"
  by (auto simp: numberStr_def unsignedNumber_def digits_def neq_Nil_conv)

lemma number_not_keyword: "numberStr s \<Longrightarrow> s \<noteq> ''auto'' \<and> s \<noteq> ''*''"
  using number_first [of s] by (auto simp: isDigit_def)

lemmas parse_defs = parseSize_def scanNumber_def scanUnsigned_def isDigit_def natOfDigits_def
  digitVal_def Let_def



lemma parseSize_bare_number:
  assumes "numberStr s"
  shows "\<exists>v. parseSize dev (Some s) =
      Inr (\<lparr>val = v, unit = Px, original = s @ ''px''\<rparr>, if dev then [MissingUnit s (s @ ''px'')] else [])"
proof -
  obtain v where "scanNumber (s @ []) = Some (v, [])"
    using scanNumber_complete [OF assms, of "[]"] by (auto simp: stops_def)
  then show ?thesis
    using number_not_keyword [OF assms] by (simp add: parseSize_def)
qed

text \<open>
  C7. \<open>parseSize\<close> fails exactly on the strings outside the grammar (\<open><number>px\<close>,
  \<open><number>%\<close>, \<open>auto\<close>, \<open>*\<close>, a bare number), and the failure is \<open>InvalidSizeFormat\<close>
  of the input; a bare number parses to pixels, with the missing-unit diagnostic in a
  development build and none in a production build; an absent size parses to \<open>auto\<close> with
  value 0.
\<close>

theorem parseSize_rejects_exactly_outside_grammar:
  "(isl (parseSize dev (Some s)) \<longleftrightarrow> \<not> sizeGrammar s)
   \<and> (isl (parseSize dev (Some s)) \<longrightarrow> parseSize dev (Some s) = Inl (InvalidSizeFormat s))
   \<and> (numberStr s \<longrightarrow>
        (\<exists>v. parseSize dev (Some s) =
           Inr (\<lparr>val = v, unit = Px, original = s @ ''px''\<rparr>,
                if dev then [MissingUnit s (s @ ''px'')] else [])))
   \<and> parseSize dev None = Inr (\<lparr>val = 0, unit = Auto, original = ''auto''\<rparr>, [])"
proof (intro conjI impI)
  show "isl (parseSize dev (Some s)) \<longleftrightarrow> \<not> sizeGrammar s"
    by (rule parseSize_fails_iff)
  show "parseSize dev (Some s) = Inl (InvalidSizeFormat s)" if "isl (parseSize dev (Some s))"
    using that by (rule parseSize_error)
  show "\<exists>v. parseSize dev (Some s) =
           Inr (\<lparr>val = v, unit = Px, original = s @ ''px''\<rparr>,
                if dev then [MissingUnit s (s @ ''px'')] else [])" if "numberStr s"
    using that by (rule parseSize_bare_number)
  show "parseSize dev None = Inr (\<lparr>val = 0, unit = Auto, original = ''auto''\<rparr>, [])"
    by (simp add: parseSize_def)
qed

text \<open>
  The witness rejects \<open>NaNundefined\<close> and accepts the bare number \<open>50.5\<close> as 50.5
  pixels, in both builds.
\<close>

theorem parseSize_rejects_exactly_outside_grammar_witness:
  "isl (parseSize True (Some ''NaNundefined'')) \<and> \<not> sizeGrammar ''NaNundefined''
   \<and> parseSize True (Some ''NaNundefined'') = Inl (InvalidSizeFormat ''NaNundefined'')
   \<and> numberStr ''50.5''
   \<and> (\<exists>v. parseSize True (Some ''50.5'') =
       Inr (\<lparr>val = v, unit = Px, original = ''50.5'' @ ''px''\<rparr>, [MissingUnit ''50.5'' (''50.5'' @ ''px'')]))
   \<and> (\<exists>v. parseSize False (Some ''50.5'') =
       Inr (\<lparr>val = v, unit = Px, original = ''50.5'' @ ''px''\<rparr>, []))
   \<and> parseSize True (Some ''50.5'') =
       Inr (\<lparr>val = 101 / 2, unit = Px, original = ''50.5px''\<rparr>, [MissingUnit ''50.5'' ''50.5px''])"
proof -
  have n: "numberStr ''50.5''"
    unfolding numberStr_def unsignedNumber_def
    by (intro disjI1 disjI2 exI [of _ "''50''"] exI [of _ "''5''"]) (simp add: digits_def isDigit_def)
  have f: "isl (parseSize True (Some ''NaNundefined''))"
    by (simp add: parse_defs)
  have e: "parseSize True (Some ''50.5'') =
       Inr (\<lparr>val = 101 / 2, unit = Px, original = ''50.5px''\<rparr>, [MissingUnit ''50.5'' ''50.5px''])"
    by (simp add: parse_defs)
  show ?thesis
    using n f e
      parseSize_rejects_exactly_outside_grammar [of True "''NaNundefined''"]
      parseSize_rejects_exactly_outside_grammar [of True "''50.5''"]
      parseSize_rejects_exactly_outside_grammar [of False "''50.5''"]
    by (simp del: append.simps)
qed

text \<open>
  C8. Formatting what \<open>parseSize\<close> returns gives the string back for \<open>123px\<close>, \<open>45%\<close>
  and \<open>auto\<close>, and \<open>formatSize\<close> maps every non-finite value (NaN and the two infinities)
  to \<open>auto\<close>, whatever the unit.
\<close>

theorem formatSize_inverts_parseSize:
  "roundTrip dev ''123px'' = Inr ''123px''
   \<and> roundTrip dev ''45%'' = Inr ''45%''
   \<and> roundTrip dev ''auto'' = Inr ''auto''
   \<and> formatSize NaN u = ''auto''
   \<and> formatSize PosInfinity u = ''auto''
   \<and> formatSize NegInfinity u = ''auto''"
proof (intro conjI)
  show "roundTrip dev ''123px'' = Inr ''123px''"
    by (cases dev; code_simp)
  show "roundTrip dev ''45%'' = Inr ''45%''"
    by (cases dev; code_simp)
  show "roundTrip dev ''auto'' = Inr ''auto''"
    by (cases dev; code_simp)
qed (simp_all add: formatSize_def)

end
